theory Spec2Isabelle
  imports Main "HOL-Library.Sublist" "HOL-Library.AList"
begin

section \<open>JavaScript values\<close>

text \<open>
  The dispatcher of \<^verbatim>\<open>lib/ApiQuick.js\<close> is dynamically typed: handler results, thrown
  values, option objects and configuration entries are arbitrary JavaScript values, and
  the code branches on their truthiness. The values that travel as payload, options or
  exception are modelled by one datatype. Numbers are the integers that a JavaScript
  number holds exactly and prints in plain decimal digits (status codes and counters;
  \<^verbatim>\<open>NaN\<close>, fractions and magnitudes from \<open>2^53\<close> on are outside the model). An object is a plain object:
  the list of its own properties in insertion order. An \<^verbatim>\<open>Error\<close> instance carries its
  \<^verbatim>\<open>name\<close>, \<^verbatim>\<open>message\<close> and \<^verbatim>\<open>stack\<close> strings and its further own properties. Arrays and
  functions do not occur as payload in the model; where the code expects a function
  (an auth override, the global auth function) the type \<open>fn_or_val\<close> below is used.
\<close>

datatype jsval =
    Undefined
  | Null
  | Bool bool
  | Num int
  | Str string
  | Obj "(string \<times> jsval) list"
  | ErrorObj string string string "(string \<times> jsval) list"

text \<open>ToBoolean: what \<^verbatim>\<open>if (v)\<close>, \<^verbatim>\<open>!v\<close>, \<^verbatim>\<open>a || b\<close> and \<^verbatim>\<open>a && b\<close> test.\<close>

fun truthy :: "jsval \<Rightarrow> bool" where
  "truthy Undefined = False"
| "truthy Null = False"
| "truthy (Bool b) = b"
| "truthy (Num n) = (n \<noteq> 0)"
| "truthy (Str s) = (s \<noteq> [])"
| "truthy (Obj ps) = True"
| "truthy (ErrorObj n m st ps) = True"

text \<open>\<^verbatim>\<open>a || b\<close> yields \<^verbatim>\<open>a\<close> when it is truthy and \<^verbatim>\<open>b\<close> otherwise.\<close>

definition js_or :: "jsval \<Rightarrow> jsval \<Rightarrow> jsval" where
  "js_or a b = (if truthy a then a else b)"

text \<open>
  Reading a property. A missing property reads as \<^verbatim>\<open>undefined\<close>, and so does any of the
  properties the code asks for (\<^verbatim>\<open>code\<close>, \<^verbatim>\<open>error\<close>, \<^verbatim>\<open>msg\<close>, \<^verbatim>\<open>status\<close>, \<^verbatim>\<open>e\<close>, \<^verbatim>\<open>stack\<close>) on
  a boolean, number or string. Reading a property of \<^verbatim>\<open>undefined\<close> or \<^verbatim>\<open>null\<close> throws a
  TypeError in JavaScript: the model tests for these two values at the two places where
  the code can meet them (the completion callback and the outer \<^verbatim>\<open>catch\<close>), and
  \<open>get_prop\<close> is never applied to them elsewhere with an effect on the result.
\<close>

fun lookup :: "(string \<times> jsval) list \<Rightarrow> string \<Rightarrow> jsval" where
  "lookup [] k = Undefined"
| "lookup ((k', v) # ps) k = (if k' = k then v else lookup ps k)"

fun get_prop :: "jsval \<Rightarrow> string \<Rightarrow> jsval" where
  "get_prop (Obj ps) k = lookup ps k"
| "get_prop (ErrorObj n m st ps) k =
     (if k = ''name'' then Str n else if k = ''message'' then Str m
      else if k = ''stack'' then Str st else lookup ps k)"
| "get_prop v k = Undefined"

text \<open>
  The one property the request path assigns on a payload or options value is \<^verbatim>\<open>e\<close>. An
  existing key keeps its place, a new key goes last. The file is not in strict mode, so
  the assignment is silently dropped on a boolean, number or string.
\<close>

fun set_e :: "jsval \<Rightarrow> jsval \<Rightarrow> jsval" where
  "set_e (Obj ps) v = Obj (AList.update ''e'' v ps)"
| "set_e (ErrorObj n m st ps) v = ErrorObj n m st (AList.update ''e'' v ps)"
| "set_e w v = w"

text \<open>ToString, as used by \<^verbatim>\<open>'' + v\<close>.\<close>

definition digit_char :: "nat \<Rightarrow> char" where
  "digit_char d = char_of (of_char (CHR ''0'') + d)"

fun nat_digits :: "nat \<Rightarrow> string" where
  "nat_digits n = (if n < 10 then [digit_char n] else nat_digits (n div 10) @ [digit_char (n mod 10)])"

declare nat_digits.simps [simp del]

definition int_digits :: "int \<Rightarrow> string" where
  "int_digits i = (if i < 0 then CHR ''-'' # nat_digits (nat (- i)) else nat_digits (nat i))"

fun to_string :: "jsval \<Rightarrow> string" where
  "to_string Undefined = ''undefined''"
| "to_string Null = ''null''"
| "to_string (Bool b) = (if b then ''true'' else ''false'')"
| "to_string (Num n) = int_digits n"
| "to_string (Str s) = s"
| "to_string (Obj ps) = ''[object Object]''"
| "to_string (ErrorObj n m st ps) =
     (if n = [] then m else if m = [] then n else n @ '': '' @ m)"

text \<open>
  \<^verbatim>\<open>v == n\<close> for a number \<open>n\<close>. A boolean is compared as 0 or 1; \<^verbatim>\<open>undefined\<close> and \<^verbatim>\<open>null\<close>
  equal no number; a string is compared through ToNumber, an object through the
  ToNumber of its string form. ToNumber on strings accepts many spellings (blanks,
  signs, fractions, exponents, hexadecimal) and rounds to a double, so it is not
  defined here: it is the parameter \<open>toNumber\<close> of every function that depends on it,
  \<open>None\<close> standing for a string that denotes no integer.
\<close>

fun loose_eq_num :: "(string \<Rightarrow> int option) \<Rightarrow> jsval \<Rightarrow> int \<Rightarrow> bool" where
  "loose_eq_num toNumber Undefined n = False"
| "loose_eq_num toNumber Null n = False"
| "loose_eq_num toNumber (Bool b) n = ((if b then 1 else 0) = n)"
| "loose_eq_num toNumber (Num m) n = (m = n)"
| "loose_eq_num toNumber (Str s) n = (toNumber s = Some n)"
| "loose_eq_num toNumber (Obj ps) n = (toNumber ''[object Object]'' = Some n)"
| "loose_eq_num toNumber (ErrorObj nm m st ps) n = (toNumber (to_string (ErrorObj nm m st ps)) = Some n)"

text \<open>
  A reading of ToNumber on the strings of decimal digits, to run the model on concrete
  inputs.
\<close>

fun digits_value :: "nat \<Rightarrow> string \<Rightarrow> nat option" where
  "digits_value acc [] = Some acc"
| "digits_value acc (c # cs) =
     (if (of_char (CHR ''0'') :: nat) \<le> of_char c \<and> (of_char c :: nat) \<le> of_char (CHR ''9'')
      then digits_value (10 * acc + (of_char c - of_char (CHR ''0''))) cs
      else None)"

definition decimal :: "string \<Rightarrow> int option" where
  "decimal s = map_option int (digits_value 0 s)"

text \<open>
  A TypeError raised by the engine itself. The wording of the message is the engine's;
  the frames of the stack trace are not modelled.
\<close>

definition type_error :: "string \<Rightarrow> jsval" where
  "type_error msg = ErrorObj ''TypeError'' msg (''TypeError: '' @ msg) []"

text \<open>A value in a place where the code expects a function.\<close>

datatype fn_or_val = Function nat | Value jsval

fun truthy_fv :: "fn_or_val \<Rightarrow> bool" where
  "truthy_fv (Function i) = True"
| "truthy_fv (Value v) = truthy v"

section \<open>JavaScript strings\<close>

definition slash :: char where
  "slash = CHR ''/''"

text \<open>\<^verbatim>\<open>s[i]\<close>: the character at an index, \<^verbatim>\<open>undefined\<close> out of range.\<close>

definition char_at :: "string \<Rightarrow> int \<Rightarrow> char option" where
  "char_at s i = (if 0 \<le> i \<and> i < int (length s) then Some (s ! nat i) else None)"

text \<open>\<^verbatim>\<open>s.lastIndexOf(c)\<close>: the index of the last occurrence, \<open>-1\<close> when there is none.\<close>

definition lastIndexOf :: "string \<Rightarrow> char \<Rightarrow> int" where
  "lastIndexOf s c =
     (if c \<in> set s
      then int (length s) - 1 - int (length (takeWhile (\<lambda>x. x \<noteq> c) (rev s)))
      else - 1)"

text \<open>
  \<^verbatim>\<open>s.substring(a, b)\<close>: both indices are clamped to \<open>[0, length]\<close> and swapped when
  \<open>a > b\<close>.
\<close>

definition substring :: "string \<Rightarrow> int \<Rightarrow> int \<Rightarrow> string" where
  "substring s a b =
     (let n = int (length s);
          a' = max 0 (min a n);
          b' = max 0 (min b n);
          lo = min a' b';
          hi = max a' b'
      in take (nat (hi - lo)) (drop (nat lo) s))"

section \<open>The server object\<close>

text \<open>
  The fields of the \<^verbatim>\<open>ApiQuick\<close> object that the handling of a request reads. \<open>routes\<close> is the
  flat route table, a JavaScript object used as a dictionary from path to handler
  function: an association list from the key to the identity of the function object
  (own properties only; the members inherited from \<^verbatim>\<open>Object.prototype\<close> have names
  without a leading slash and are not modelled). \<open>checkAuth\<close> is \<^verbatim>\<open>false\<close> until
  \<^verbatim>\<open>auth(f)\<close> stores a function. \<open>maxDepth\<close> is a number taken from the options as it
  is; \<open>debug\<close>, \<open>prettyJson\<close> and \<open>fullRequest\<close> are only ever tested for truthiness.
\<close>

record self =
  routes :: "(string \<times> nat) list"
  checkAuth :: fn_or_val
  maxDepth :: int
  debug :: bool
  prettyJson :: bool
  fullRequest :: bool

section \<open>Route resolution\<close>

text \<open>
  The dictionary returned by \<^verbatim>\<open>_checkParamsSupplied\<close>: \<^verbatim>\<open>ok\<close>, \<^verbatim>\<open>code\<close>, \<^verbatim>\<open>error\<close> from
  the start, \<^verbatim>\<open>handler\<close> and \<^verbatim>\<open>args\<close> once a route is found.
\<close>

record returnDict =
  rd_ok :: bool
  rd_code :: int
  rd_error :: "string option"
  rd_handler :: "nat option"
  rd_args :: "string list option"

text \<open>
  The \<^verbatim>\<open>while\<close> loop of \<^verbatim>\<open>_checkParamsSupplied\<close>, over its variables \<^verbatim>\<open>returnDict\<close>,
  \<^verbatim>\<open>endpoint\<close>, \<^verbatim>\<open>args\<close> and \<^verbatim>\<open>depth\<close>. A value stored in the route table is a function,
  hence truthy, so \<^verbatim>\<open>if (this.routes[endpoint])\<close> tests whether the key is present.
  The line \<^verbatim>\<open>returnDict.handler.auth = returnDict.handler && returnDict.handler.auth\<close>
  writes back to the function object the value it has just read from it and changes
  nothing that is read later.
\<close>

function resolve_loop ::
  "(string \<times> nat) list \<Rightarrow> int \<Rightarrow> returnDict \<Rightarrow> string \<Rightarrow> string list \<Rightarrow> int \<Rightarrow> returnDict"
where
  "resolve_loop rts md rd endpoint args depth =
     (if \<not> rd_ok rd \<and> depth \<le> md then
        (case map_of rts endpoint of
           Some h \<Rightarrow>
             resolve_loop rts md
               (rd\<lparr>rd_ok := True, rd_handler := Some h, rd_args := Some args, rd_error := None\<rparr>)
               endpoint args depth
         | None \<Rightarrow>
             (if depth + 1 > md then rd
              else
                (let endIndex = lastIndexOf endpoint slash in
                 if endIndex \<noteq> 0 then
                   resolve_loop rts md rd
                     (substring endpoint 0 (lastIndexOf endpoint slash))
                     (substring endpoint (endIndex + 1) (int (length endpoint)) # args)
                     (depth + 1)
                 else rd)))
      else rd)"
  by pat_completeness auto
termination
  by (relation "measure (\<lambda>(rts, md, rd, endpoint, args, depth).
        if rd_ok rd then 0 else 1 + nat (md + 1 - depth))") auto

text \<open>
  The first statement of \<^verbatim>\<open>_checkParamsSupplied\<close>: one slash at the end of the path name
  is removed.
\<close>

definition strip_slash :: "string \<Rightarrow> string" where
  "strip_slash pathname =
     (if char_at pathname (int (length pathname) - 1) = Some slash
      then substring pathname 0 (int (length pathname) - 1)
      else pathname)"

definition checkParamsSupplied :: "self \<Rightarrow> string \<Rightarrow> returnDict" where
  "checkParamsSupplied this pathname =
     (let endpoint = strip_slash pathname;
          returnDict =
            \<lparr>rd_ok = False, rd_code = 404,
             rd_error = Some (''No endpoint '' @ endpoint),
             rd_handler = None, rd_args = None\<rparr>
      in resolve_loop (routes this) (maxDepth this) returnDict endpoint [] 0)"

text \<open>
  The request path \<^verbatim>\<open>P/a1/.../ad\<close> is \<open>P @ suffix_path [a1, ..., ad]\<close>.
\<close>

fun suffix_path :: "string list \<Rightarrow> string" where
  "suffix_path [] = []"
| "suffix_path (a # as) = slash # a @ suffix_path as"

section \<open>Writing a response\<close>

text \<open>
  What the code does to the outside is recorded as a list of events: a call of
  \<^verbatim>\<open>logger.emit(level, message, data)\<close>, a response, which is the pair of calls
  \<^verbatim>\<open>res.writeHead(code, statusMsg, header)\<close> and \<^verbatim>\<open>res.end(data_string)\<close>, and a call of
  \<^verbatim>\<open>setTimeout(f, 0)\<close>, which carries the trace of \<^verbatim>\<open>f\<close> run in its later turn. The response
  sink and \<^verbatim>\<open>JSON.stringify\<close> are outside the file: a response records the arguments
  given to the sink, and its body is kept as the value handed to \<^verbatim>\<open>JSON.stringify\<close>
  with the pretty-printing flag. A trace is the events of a piece of code together with
  the exception it ended with, if any.
\<close>

record response =
  sent_code :: jsval
  sent_status :: jsval
  sent_header :: "(string \<times> string) list"
  sent_pretty :: bool
  sent_data :: jsval

datatype event =
    Emit string string jsval
  | Send response
  | SetTimeout "event list \<times> jsval option"

type_synonym trace = "event list \<times> jsval option"

definition prepend_events :: "event list \<Rightarrow> trace \<Rightarrow> trace" where
  "prepend_events evs t = (evs @ fst t, snd t)"

fun responses :: "event list \<Rightarrow> response list" where
  "responses [] = []"
| "responses (Emit l m d # evs) = responses evs"
| "responses (Send r # evs) = r # responses evs"
| "responses (SetTimeout t # evs) = responses evs"

text \<open>
  The first argument of \<^verbatim>\<open>_writeResponse\<close>: the response object of the request, or some
  other value, which has no \<^verbatim>\<open>writeHead\<close> method.
\<close>

datatype res_arg = Res | NotRes jsval

definition getHeaders :: "(string \<Rightarrow> int option) \<Rightarrow> jsval \<Rightarrow> (string \<times> string) list" where
  "getHeaders toNumber data =
     (let header = [(''content-type'', ''application/json''),
                    (''X-Content-Type-Options'', ''nosniff''),
                    (''X-Frame-Options'', ''DENY'')]
      in if truthy data \<and> loose_eq_num toNumber (get_prop data ''code'') 401
         then header @ [(''WWW-Authenticate'', ''Basic user:pass'')]
         else header)"

definition writeResponse ::
  "self \<Rightarrow> (string \<Rightarrow> int option) \<Rightarrow> res_arg \<Rightarrow> jsval \<Rightarrow> jsval \<Rightarrow> trace"
where
  "writeResponse this toNumber res data0 extra0 =
     (let data = (if \<not> truthy data0 then Str (to_string data0) else data0);
          extra = (if \<not> truthy extra0 then Obj [] else extra0);
          header = getHeaders toNumber data;
          statusMsg =
            js_or (js_or (js_or (get_prop extra ''status'') (get_prop data ''error''))
                         (get_prop data ''msg''))
                  (Str ''success'');
          code = js_or (js_or (get_prop extra ''code'') (get_prop data ''code'')) (Num 200);
          data' =
            (if debug this \<and> truthy (get_prop extra ''e'') \<and> get_prop data ''e'' = Undefined
             then set_e data
                    (js_or (get_prop (get_prop extra ''e'') ''stack'')
                           (Str (to_string (get_prop extra ''e''))))
             else data);
          logged = Emit ''info'' (''Making '' @ to_string code @ '' response'') data'
      in case res of
           Res \<Rightarrow>
             ([logged,
               Send \<lparr>sent_code = code, sent_status = statusMsg, sent_header = header,
                     sent_pretty = prettyJson this, sent_data = data'\<rparr>],
              None)
         | NotRes v \<Rightarrow> ([logged], Some (type_error ''res.writeHead is not a function'')))"

section \<open>The rate limit step\<close>

text \<open>
  The middleware that \<^verbatim>\<open>init\<close> installs when \<^verbatim>\<open>extra.rateLimit\<close> is set. \<open>allowed\<close> is what
  \<^verbatim>\<open>self.rateLimit.handleRateLimit(req.connection.remoteAddress)\<close> returns (the limiter
  is another module), \<open>next\<close> is the trace of the rest of the chain. The call of
  \<^verbatim>\<open>_writeResponse\<close> has one argument: the envelope is bound to the parameter \<^verbatim>\<open>res\<close>, and
  \<^verbatim>\<open>data\<close> and \<^verbatim>\<open>extra\<close> are \<^verbatim>\<open>undefined\<close>.
\<close>

definition rate_limit_envelope :: jsval where
  "rate_limit_envelope =
     Obj [(''ok'', Bool False), (''code'', Num 429), (''error'', Str ''Rate limit reached'')]"

definition rateLimitStep :: "self \<Rightarrow> (string \<Rightarrow> int option) \<Rightarrow> bool \<Rightarrow> trace \<Rightarrow> trace" where
  "rateLimitStep this toNumber allowed next =
     (if \<not> allowed
      then writeResponse this toNumber (NotRes rate_limit_envelope) Undefined Undefined
      else next)"

text \<open>
  The outer \<^verbatim>\<open>try\<close>/\<^verbatim>\<open>catch\<close> of \<^verbatim>\<open>_process\<close>, around \<^verbatim>\<open>self.middleware.run(...)\<close>: \<open>body\<close> is the
  trace of what ran inside the \<^verbatim>\<open>try\<close> in the same turn of the event loop. The handler of
  the \<^verbatim>\<open>catch\<close> reads \<^verbatim>\<open>e.stack\<close>, which itself throws when \<^verbatim>\<open>e\<close> is \<^verbatim>\<open>undefined\<close> or \<^verbatim>\<open>null\<close>.
\<close>

definition error_envelope :: "jsval \<Rightarrow> jsval" where
  "error_envelope e =
     Obj [(''ok'', Bool False), (''code'', Num 500), (''error'', Str (to_string e))]"

definition process_try :: "self \<Rightarrow> (string \<Rightarrow> int option) \<Rightarrow> res_arg \<Rightarrow> trace \<Rightarrow> trace" where
  "process_try this toNumber res body =
     (case body of
        (evs, None) \<Rightarrow> (evs, None)
      | (evs, Some e) \<Rightarrow>
          (if e = Undefined \<or> e = Null
           then (evs, Some (type_error (''Cannot read property stack of '' @ to_string e)))
           else prepend_events
                  (evs @ [Emit ''error'' ''Uncaught exception''
                            (Obj [(''e'', e), (''stack'', get_prop e ''stack'')])])
                  (writeResponse this toNumber res (error_envelope e) (Obj [(''e'', e)]))))"

section \<open>Functions, handlers and their invocation\<close>

text \<open>
  The request, with the fields the dispatcher reads: \<^verbatim>\<open>method\<close>, \<^verbatim>\<open>u.pathname\<close> (the path
  that \<^verbatim>\<open>url.parse\<close> finds in \<^verbatim>\<open>req.url\<close>), \<^verbatim>\<open>args\<close> (stored by the dispatcher after route
  resolution), \<^verbatim>\<open>body\<close> (for a GET request the parsed query), \<^verbatim>\<open>connection.remoteAddress\<close>
  and \<^verbatim>\<open>ip\<close> (stored by \<^verbatim>\<open>_getRequestData\<close> when the whole request is passed on).
\<close>

record request =
  req_method :: string
  req_pathname :: string
  req_args :: "string list"
  req_body :: jsval
  req_remoteAddress :: string
  req_ip :: "string option"

datatype reqdata =
    Whole request
  | View string "string list" jsval string

definition getRequestData :: "self \<Rightarrow> request \<Rightarrow> reqdata" where
  "getRequestData this req =
     (if fullRequest this
      then Whole (req\<lparr>req_ip := Some (req_remoteAddress req)\<rparr>)
      else View (req_method req) (req_args req) (req_body req) (req_remoteAddress req))"

text \<open>
  A function of the application (a handler, an auth function) is seen from the
  dispatcher through what a call of it does with the callback it is given: it invokes
  the callback some number of times, each time with a list of arguments, and then
  returns a value or throws. An exception thrown by the callback ends the call with
  that exception (the function does not wrap the callback in a \<^verbatim>\<open>try\<close>). A function that
  keeps the callback and invokes it from a later turn of the event loop returns without
  invoking it; the later invocation is the callback applied on its own.

  A function object has its declared parameter count \<^verbatim>\<open>length\<close>, the property \<^verbatim>\<open>auth\<close>
  that \<^verbatim>\<open>addEndpoints\<close> stores on it, and its behaviour, which depends on the arguments
  of the call: the request data for a handler, the user and the password for an auth
  function.
\<close>

datatype script = Return jsval | Throw jsval | Callback "jsval list" script

datatype fn_args = HandlerArgs reqdata | AuthArgs jsval jsval

record fnobj =
  fn_length :: nat
  fn_auth :: fn_or_val
  fn_body :: "fn_args \<Rightarrow> script"

text \<open>The \<open>i\<close>-th argument of a call; a missing argument is \<^verbatim>\<open>undefined\<close>.\<close>

definition arg :: "jsval list \<Rightarrow> nat \<Rightarrow> jsval" where
  "arg argv i = (if i < length argv then argv ! i else Undefined)"

text \<open>
  Running a call. \<open>cb\<close> is the callback passed to the function, \<open>None\<close> when the function
  is called without one: invoking the missing parameter is then a TypeError.
\<close>

fun run_script :: "(jsval list \<Rightarrow> trace) option \<Rightarrow> script \<Rightarrow> event list \<times> (jsval + jsval)" where
  "run_script cb (Return v) = ([], Inr v)"
| "run_script cb (Throw e) = ([], Inl e)"
| "run_script cb (Callback argv k) =
     (case cb of
        None \<Rightarrow> ([], Inl (type_error ''undefined is not a function''))
      | Some f \<Rightarrow>
          (case f argv of
             (evs, Some e) \<Rightarrow> (evs, Inl e)
           | (evs, None) \<Rightarrow> (case run_script cb k of (evs', r) \<Rightarrow> (evs @ evs', r))))"

text \<open>
  The completion callback that the dispatcher passes to a handler taking two
  parameters: \<^verbatim>\<open>function(err, result, extra)\<close>. The test \<^verbatim>\<open>extra.e === undefined\<close> is
  evaluated only when \<^verbatim>\<open>err\<close> is truthy, and throws when \<^verbatim>\<open>extra\<close> is \<^verbatim>\<open>undefined\<close> or
  \<^verbatim>\<open>null\<close>.
\<close>

definition handler_callback ::
  "self \<Rightarrow> (string \<Rightarrow> int option) \<Rightarrow> res_arg \<Rightarrow> jsval list \<Rightarrow> trace"
where
  "handler_callback this toNumber res argv =
     (let err = arg argv 0; result = arg argv 1; extra = arg argv 2 in
      if truthy err then
        (if extra = Undefined \<or> extra = Null
         then ([], Some (type_error (''Cannot read property e of '' @ to_string extra)))
         else writeResponse this toNumber res result
                (if get_prop extra ''e'' = Undefined then set_e extra err else extra))
      else writeResponse this toNumber res result extra)"

text \<open>
  The function scheduled by \<^verbatim>\<open>setTimeout(..., 0)\<close> once the request is authorised: the
  \<^verbatim>\<open>try\<close> block that chooses the calling convention from \<^verbatim>\<open>handler.length\<close>, and its
  \<^verbatim>\<open>catch\<close>.
\<close>

definition invoke_handler ::
  "self \<Rightarrow> (string \<Rightarrow> int option) \<Rightarrow> fnobj \<Rightarrow> request \<Rightarrow> res_arg \<Rightarrow> trace"
where
  "invoke_handler this toNumber handler req res =
     (let attempt =
        (if fn_length handler \<ge> 2 then
           (case run_script (Some (handler_callback this toNumber res))
                   (fn_body handler (HandlerArgs (getRequestData this req))) of
              (evs, Inl e) \<Rightarrow> (evs, Some e)
            | (evs, Inr v) \<Rightarrow> (evs, None))
         else
           (case run_script None (fn_body handler (HandlerArgs (getRequestData this req))) of
              (evs, Inl e) \<Rightarrow> (evs, Some e)
            | (evs, Inr result) \<Rightarrow>
                prepend_events evs (writeResponse this toNumber res result Undefined)))
      in case attempt of
           (evs, None) \<Rightarrow> (evs, None)
         | (evs, Some e) \<Rightarrow>
             prepend_events
               (evs @ [Emit ''warn'' ''Uncaught exception in handler'' (Obj [(''e'', e)])])
               (writeResponse this toNumber res (error_envelope e) (Obj [(''e'', e)])))"



text \<open>A function that behaves in the same way whatever its arguments are.\<close>

definition always :: "script \<Rightarrow> fn_args \<Rightarrow> script" where
  "always b actual = b"

section \<open>The authorisation decision\<close>

text \<open>
  \<^verbatim>\<open>authDetails\<close> comes from \<^verbatim>\<open>Auth.decodeAuthDetails\<close>, another module. Calling a value
  that is not a function is a TypeError.
\<close>

record authDetails =
  user :: jsval
  pass :: jsval

definition call_fn ::
  "(nat \<Rightarrow> fnobj) \<Rightarrow> fn_or_val \<Rightarrow> fn_args \<Rightarrow> (jsval list \<Rightarrow> trace) \<Rightarrow> trace"
where
  "call_fn funs f actual cb =
     (case f of
        Function i \<Rightarrow>
          (case run_script (Some cb) (fn_body (funs i) actual) of
             (evs, Inl e) \<Rightarrow> (evs, Some e)
           | (evs, Inr v) \<Rightarrow> (evs, None))
      | Value v \<Rightarrow> ([], Some (type_error (to_string v @ '' is not a function''))))"

definition checkAuthDetails ::
  "self \<Rightarrow> (nat \<Rightarrow> fnobj) \<Rightarrow> fn_or_val \<Rightarrow> authDetails \<Rightarrow> (jsval list \<Rightarrow> trace) \<Rightarrow> trace"
where
  "checkAuthDetails this funs handler_auth details cb =
     (if truthy_fv handler_auth then
        call_fn funs handler_auth (AuthArgs (user details) (pass details)) cb
      else if handler_auth = Value (Bool False) then
        cb [Bool True]
      else if truthy_fv (checkAuth this) then
        call_fn funs (checkAuth this) (AuthArgs (user details) (pass details)) cb
      else cb [Bool True])"

section \<open>The dispatcher\<close>

text \<open>
  The callback that \<^verbatim>\<open>_process\<close> gives to \<^verbatim>\<open>_checkAuthDetails\<close>: a falsy decision is
  answered with 401, any other schedules the invocation of the handler.
\<close>

definition auth_failed_envelope :: jsval where
  "auth_failed_envelope =
     Obj [(''code'', Num 401), (''ok'', Bool False), (''error'', Str ''Auth failed'')]"

definition auth_callback ::
  "self \<Rightarrow> (string \<Rightarrow> int option) \<Rightarrow> fnobj \<Rightarrow> request \<Rightarrow> res_arg \<Rightarrow> jsval list \<Rightarrow> trace"
where
  "auth_callback this toNumber handler req res argv =
     (if \<not> truthy (arg argv 0)
      then writeResponse this toNumber res auth_failed_envelope Undefined
      else ([SetTimeout (invoke_handler this toNumber handler req res)], None))"

text \<open>
  The function that \<^verbatim>\<open>_process\<close> passes to \<^verbatim>\<open>middleware.run\<close>, from route resolution on. A
  dictionary that is not \<^verbatim>\<open>ok\<close> is written as it is; it then has the fields \<^verbatim>\<open>ok\<close>,
  \<^verbatim>\<open>code\<close> and \<^verbatim>\<open>error\<close>. A dictionary that is \<^verbatim>\<open>ok\<close> has a handler and arguments, so the
  last case below does not arise.
\<close>

definition returnDict_value :: "returnDict \<Rightarrow> jsval" where
  "returnDict_value rd =
     Obj [(''ok'', Bool (rd_ok rd)), (''code'', Num (rd_code rd)),
          (''error'', case rd_error rd of Some m \<Rightarrow> Str m | None \<Rightarrow> Undefined)]"

definition after_middleware ::
  "self \<Rightarrow> (string \<Rightarrow> int option) \<Rightarrow> (nat \<Rightarrow> fnobj) \<Rightarrow> authDetails \<Rightarrow> request \<Rightarrow> res_arg \<Rightarrow> trace"
where
  "after_middleware this toNumber fs details req res =
     (let responseData = checkParamsSupplied this (req_pathname req) in
      if \<not> rd_ok responseData
      then writeResponse this toNumber res (returnDict_value responseData) Undefined
      else (case (rd_handler responseData, rd_args responseData) of
              (Some h, Some found) \<Rightarrow>
                checkAuthDetails this fs (fn_auth (fs h)) details
                  (auth_callback this toNumber (fs h) (req\<lparr>req_args := found\<rparr>) res)
            | _ \<Rightarrow> ([], None)))"

text \<open>
  A function store to start from: every identity holds a function without parameters
  and without \<^verbatim>\<open>auth\<close> that returns \<^verbatim>\<open>undefined\<close>.
\<close>

definition no_funs :: "nat \<Rightarrow> fnobj" where
  "no_funs i = \<lparr>fn_length = 0, fn_auth = Value Undefined, fn_body = always (Return Undefined)\<rparr>"

section \<open>Registering endpoints\<close>

text \<open>
  The argument of \<^verbatim>\<open>addEndpoints\<close> is a nested dictionary. A value in it is a function,
  an object (walked recursively; its entries are listed in the order of \<^verbatim>\<open>for ... in\<close>),
  or anything else, which is skipped. The options carry \<^verbatim>\<open>auth\<close>. The state that
  registration changes is the route table of the server and the \<^verbatim>\<open>auth\<close> property of
  the function objects.
\<close>

datatype endpoints = Func nat | Dict "(string \<times> endpoints) list" | Skipped

record extra_opts =
  auth :: fn_or_val

record state =
  server :: self
  funs :: "nat \<Rightarrow> fnobj"

text \<open>\<^verbatim>\<open>stack.join('/')\<close>.\<close>

fun join :: "string list \<Rightarrow> string" where
  "join [] = []"
| "join [a] = a"
| "join (a # b # bs) = a @ slash # join (b # bs)"

definition register :: "extra_opts option \<Rightarrow> string list \<Rightarrow> nat \<Rightarrow> state \<Rightarrow> state" where
  "register extra stack f s =
     (let s1 = (case extra of
                  None \<Rightarrow> s
                | Some x \<Rightarrow>
                    if truthy_fv (auth x)
                    then s\<lparr>funs := (funs s)(f := (funs s f)\<lparr>fn_auth := auth x\<rparr>)\<rparr>
                    else s)
      in s1\<lparr>server := (server s1)\<lparr>routes := AList.update (slash # join stack) f (routes (server s1))\<rparr>\<rparr>)"

fun r_dict :: "extra_opts option \<Rightarrow> string list \<Rightarrow> (string \<times> endpoints) list \<Rightarrow> state \<Rightarrow> state"
and r_value :: "extra_opts option \<Rightarrow> string list \<Rightarrow> endpoints \<Rightarrow> state \<Rightarrow> state" where
  "r_dict extra stack [] s = s"
| "r_dict extra stack ((k, v) # d) s = r_dict extra stack d (r_value extra (stack @ [k]) v s)"
| "r_value extra stack (Func f) s = register extra stack f s"
| "r_value extra stack (Dict d) s = r_dict extra stack d s"
| "r_value extra stack Skipped s = s"

definition addEndpoints :: "(string \<times> endpoints) list \<Rightarrow> extra_opts option \<Rightarrow> state \<Rightarrow> state" where
  "addEndpoints route extra s = r_dict extra [] route s"

text \<open>
  The auth override that a request for a resolved route is checked against:
  \<^verbatim>\<open>handler.auth\<close> of the function object found in the route table.
\<close>

definition route_auth :: "state \<Rightarrow> string \<Rightarrow> fn_or_val option" where
  "route_auth s path = map_option (\<lambda>f. fn_auth (funs s f)) (map_of (routes (server s)) path)"

text \<open>The function objects that occur in a nested dictionary.\<close>

fun funcs_dict :: "(string \<times> endpoints) list \<Rightarrow> nat set"
and funcs_value :: "endpoints \<Rightarrow> nat set" where
  "funcs_dict [] = {}"
| "funcs_dict ((k, v) # d) = funcs_value v \<union> funcs_dict d"
| "funcs_value (Func f) = {f}"
| "funcs_value (Dict d) = funcs_dict d"
| "funcs_value Skipped = {}"

section \<open>Properties of route resolution\<close>












text \<open>
  The keys that \<open>addEndpoints\<close> stores are of the form \<open>suffix_path stack\<close> for a stack
  that is not empty: they begin with a slash.
\<close>

lemma slash_join: "stack \<noteq> [] \<Longrightarrow> slash # join stack = suffix_path stack"
  by (induction stack rule: join.induct) auto







section \<open>Properties of the response writer\<close>

lemma int_digits_200: "int_digits 200 = ''200''"
  by code_simp

lemma int_digits_500: "int_digits 500 = ''500''"
  by code_simp

lemma falsy_get_prop: "\<not> truthy v \<Longrightarrow> get_prop v k = Undefined"
  by (cases v) simp_all

lemma falsy_loose_eq: "\<not> truthy v \<Longrightarrow> \<not> loose_eq_num tn (get_prop v k) n"
  by (simp add: falsy_get_prop)

lemma loose_eq_truthy: "loose_eq_num tn (get_prop v k) n \<Longrightarrow> truthy v"
  using falsy_loose_eq by blast

lemma writeResponse_Res_returns: "snd (writeResponse this toNumber Res data extra) = None"
  by (simp add: writeResponse_def Let_def)

text \<open>
  Claim C5, as amended. For every response written, the status code is
  \<^verbatim>\<open>overrides.code\<close> if that is truthy, else \<^verbatim>\<open>data.code\<close> if that is truthy, else 200; the
  status text is \<^verbatim>\<open>overrides.status\<close> if truthy, else \<^verbatim>\<open>data.error\<close> if truthy, else
  \<^verbatim>\<open>data.msg\<close> if truthy, else \<^verbatim>\<open>success\<close>. A field that is present with a falsy value
  (\<^verbatim>\<open>0\<close>, the empty string, \<^verbatim>\<open>null\<close>, \<^verbatim>\<open>false\<close>) counts as absent. The properties are read
  from the payload and the overrides as the caller gave them: replacing a falsy payload
  by its string form and falsy overrides by the empty object changes none of them.
\<close>

theorem written_code_and_status:
  "map sent_code (responses (fst (writeResponse this toNumber Res data extra))) =
     [if truthy (get_prop extra ''code'') then get_prop extra ''code''
      else if truthy (get_prop data ''code'') then get_prop data ''code''
      else Num 200] \<and>
   map sent_status (responses (fst (writeResponse this toNumber Res data extra))) =
     [if truthy (get_prop extra ''status'') then get_prop extra ''status''
      else if truthy (get_prop data ''error'') then get_prop data ''error''
      else if truthy (get_prop data ''msg'') then get_prop data ''msg''
      else Str ''success'']"
proof -
  let ?data = "if \<not> truthy data then Str (to_string data) else data"
  let ?extra = "if \<not> truthy extra then Obj [] else extra"
  have d: "get_prop ?data k = get_prop data k" for k
    by (simp add: falsy_get_prop)
  have x: "get_prop ?extra k = get_prop extra k" for k
    by (simp add: falsy_get_prop)
  show ?thesis
    unfolding writeResponse_def Let_def d x
    by (simp add: js_or_def)
qed

text \<open>
  The claim as written, with "present" for "truthy", fails on a payload whose \<^verbatim>\<open>code\<close> is
  0 and whose \<^verbatim>\<open>error\<close> is the empty string: both fields are present, and the response
  has the status code 200 and the status text of \<^verbatim>\<open>msg\<close>.
\<close>

theorem falsy_fields_counterexample:
  "get_prop (Obj [(''code'', Num 0), (''error'', Str ''''), (''msg'', Str ''saved'')]) ''code'' = Num 0 \<and>
   get_prop (Obj [(''code'', Num 0), (''error'', Str ''''), (''msg'', Str ''saved'')]) ''error'' = Str '''' \<and>
   map sent_code (responses (fst (writeResponse
     \<lparr>routes = [], checkAuth = Value (Bool False), maxDepth = 1,
      debug = False, prettyJson = False, fullRequest = False\<rparr> decimal Res
     (Obj [(''code'', Num 0), (''error'', Str ''''), (''msg'', Str ''saved'')]) Undefined))) = [Num 200] \<and>
   map sent_status (responses (fst (writeResponse
     \<lparr>routes = [], checkAuth = Value (Bool False), maxDepth = 1,
      debug = False, prettyJson = False, fullRequest = False\<rparr> decimal Res
     (Obj [(''code'', Num 0), (''error'', Str ''''), (''msg'', Str ''saved'')]) Undefined))) = [Str ''saved'']"
  by (simp add: writeResponse_def Let_def js_or_def)

text \<open>
  Claim C6, as amended. The headers of every response written are
  \<^verbatim>\<open>content-type: application/json\<close>, \<^verbatim>\<open>X-Content-Type-Options: nosniff\<close> and
  \<^verbatim>\<open>X-Frame-Options: DENY\<close>, followed by \<^verbatim>\<open>WWW-Authenticate: Basic user:pass\<close> exactly
  when the field \<^verbatim>\<open>code\<close> of the payload equals 401 under \<^verbatim>\<open>==\<close>. The status code of the
  response, which \<^verbatim>\<open>overrides.code\<close> can set, plays no part.
\<close>

theorem written_headers:
  "map sent_header (responses (fst (writeResponse this toNumber Res data extra))) =
     [[(''content-type'', ''application/json''),
       (''X-Content-Type-Options'', ''nosniff''),
       (''X-Frame-Options'', ''DENY'')] @
      (if loose_eq_num toNumber (get_prop data ''code'') 401
       then [(''WWW-Authenticate'', ''Basic user:pass'')] else [])]"
proof -
  let ?data = "if \<not> truthy data then Str (to_string data) else data"
  have d: "get_prop ?data k = get_prop data k" for k
    by (simp add: falsy_get_prop)
  have t: "loose_eq_num toNumber (get_prop data ''code'') 401 \<Longrightarrow> truthy ?data"
    using loose_eq_truthy by auto
  have "getHeaders toNumber ?data =
     [(''content-type'', ''application/json''),
       (''X-Content-Type-Options'', ''nosniff''),
       (''X-Frame-Options'', ''DENY'')] @
      (if loose_eq_num toNumber (get_prop data ''code'') 401
       then [(''WWW-Authenticate'', ''Basic user:pass'')] else [])"
    unfolding getHeaders_def Let_def d using t by auto
  then show ?thesis
    unfolding writeResponse_def Let_def by simp
qed

text \<open>
  With \<^verbatim>\<open>overrides.code\<close> 401 and a payload without \<^verbatim>\<open>code\<close>, the status code is 401 and
  the header \<^verbatim>\<open>WWW-Authenticate\<close> is not sent.
\<close>

theorem override_401_counterexample:
  "map sent_code (responses (fst (writeResponse
     \<lparr>routes = [], checkAuth = Value (Bool False), maxDepth = 1,
      debug = False, prettyJson = False, fullRequest = False\<rparr> decimal Res
     (Obj [(''ok'', Bool False)]) (Obj [(''code'', Num 401)])))) = [Num 401] \<and>
   map sent_header (responses (fst (writeResponse
     \<lparr>routes = [], checkAuth = Value (Bool False), maxDepth = 1,
      debug = False, prettyJson = False, fullRequest = False\<rparr> decimal Res
     (Obj [(''ok'', Bool False)]) (Obj [(''code'', Num 401)])))) =
     [[(''content-type'', ''application/json''),
       (''X-Content-Type-Options'', ''nosniff''),
       (''X-Frame-Options'', ''DENY'')]]"
  by (simp add: writeResponse_def getHeaders_def Let_def js_or_def)

section \<open>Properties of the rate limit step\<close>

text \<open>
  Claim C2. A request over quota should be answered with the envelope
  \<^verbatim>\<open>{ok: false, code: 429, error: 'Rate limit reached'}\<close>. The step does not reach
  \<^verbatim>\<open>next\<close>, but it writes no response either: the envelope is passed to \<^verbatim>\<open>_writeResponse\<close>
  in the place of the response object, the payload is \<^verbatim>\<open>undefined\<close>, and the call ends
  in a TypeError once the log line for a 200 response has been emitted.
\<close>

theorem rate_limited_no_429:
  "rateLimitStep this toNumber False next =
     ([Emit ''info'' ''Making 200 response'' (Str ''undefined'')],
      Some (type_error ''res.writeHead is not a function''))"
  by (simp add: rateLimitStep_def writeResponse_def Let_def js_or_def int_digits_200)

text \<open>
  When the step runs in the same turn as the \<^verbatim>\<open>try\<close> of \<^verbatim>\<open>_process\<close>, the \<^verbatim>\<open>catch\<close> answers
  the request with 500 and the message of the TypeError.
\<close>

lemma rate_limited_outer_catch:
  "responses (fst (process_try this toNumber Res (rateLimitStep this toNumber False next))) =
     [\<lparr>sent_code = Num 500,
       sent_status = Str ''TypeError: res.writeHead is not a function'',
       sent_header = [(''content-type'', ''application/json''),
                      (''X-Content-Type-Options'', ''nosniff''),
                      (''X-Frame-Options'', ''DENY'')],
       sent_pretty = prettyJson this,
       sent_data =
         (if debug this
          then Obj [(''ok'', Bool False), (''code'', Num 500),
                    (''error'', Str ''TypeError: res.writeHead is not a function''),
                    (''e'', Str ''TypeError: res.writeHead is not a function'')]
          else Obj [(''ok'', Bool False), (''code'', Num 500),
                    (''error'', Str ''TypeError: res.writeHead is not a function'')])\<rparr>]"
  by (simp add: rateLimitStep_def writeResponse_def Let_def js_or_def process_try_def
      type_error_def prepend_events_def error_envelope_def getHeaders_def
      int_digits_200 int_digits_500)

section \<open>Properties of the handler invocation\<close>









text \<open>
  Claim C9. When the completion callback is invoked with a truthy error and no third
  argument, it throws a TypeError before anything is emitted or written. With an
  options object as third argument it writes the response of the result; the error is
  stored in the field \<^verbatim>\<open>e\<close> of the options unless they have one.
\<close>

theorem callback_without_options:
  "(truthy (arg argv 0) \<and> length argv \<le> 2 \<longrightarrow>
      handler_callback this toNumber res argv =
        ([], Some (type_error ''Cannot read property e of undefined''))) \<and>
   (truthy err \<longrightarrow>
      handler_callback this toNumber res [err, result, Obj ps] =
        writeResponse this toNumber res result
          (if lookup ps ''e'' = Undefined then Obj (AList.update ''e'' err ps) else Obj ps))"
  by (simp add: handler_callback_def arg_def Let_def)

theorem callback_without_options_witness:
  "handler_callback
     \<lparr>routes = [], checkAuth = Value (Bool False), maxDepth = 1,
      debug = False, prettyJson = False, fullRequest = False\<rparr> decimal Res
     [Str ''failed'', Obj [(''ok'', Bool False)]] =
     ([], Some (type_error ''Cannot read property e of undefined'')) \<and>
   handler_callback
     \<lparr>routes = [], checkAuth = Value (Bool False), maxDepth = 1,
      debug = False, prettyJson = False, fullRequest = False\<rparr> decimal Res
     [Str ''failed'', Obj [(''ok'', Bool False)], Obj [(''code'', Num 500)]] =
   writeResponse
     \<lparr>routes = [], checkAuth = Value (Bool False), maxDepth = 1,
      debug = False, prettyJson = False, fullRequest = False\<rparr> decimal Res
     (Obj [(''ok'', Bool False)]) (Obj [(''code'', Num 500), (''e'', Str ''failed'')])"
  using callback_without_options
    [of "[Str ''failed'', Obj [(''ok'', Bool False)]]"
        "\<lparr>routes = [], checkAuth = Value (Bool False), maxDepth = 1,
          debug = False, prettyJson = False, fullRequest = False\<rparr>" decimal Res
        "Str ''failed''" "Obj [(''ok'', Bool False)]" "[(''code'', Num 500)]"]
  by (simp add: arg_def)

section \<open>Properties of the authorisation decision\<close>

lemma auth_callback_returns: "snd (auth_callback this toNumber handler req Res argv) = None"
  by (simp add: auth_callback_def writeResponse_Res_returns)

text \<open>
  Claim C4. The decision follows the precedence table. An override that is a function
  is called with the user, the password and the callback, whatever the global auth
  function is; when it answers \<open>v\<close> through the callback, the callback receives \<open>v\<close>. An
  override that is \<^verbatim>\<open>false\<close> invokes the callback with \<^verbatim>\<open>true\<close>, whatever the global auth
  function is. With the override unset, a global auth function is called in the same
  way; with no global auth function the callback is invoked with \<^verbatim>\<open>true\<close>.
\<close>

theorem auth_precedence:
  "checkAuthDetails this fs (Function f) details cb =
     call_fn fs (Function f) (AuthArgs (user details) (pass details)) cb \<and>
   (fn_body (fs f) (AuthArgs (user details) (pass details)) = Callback [v] (Return r) \<and>
    snd (cb [v]) = None \<longrightarrow>
      checkAuthDetails this fs (Function f) details cb = cb [v]) \<and>
   checkAuthDetails this fs (Value (Bool False)) details cb = cb [Bool True] \<and>
   (checkAuth this = Function g \<longrightarrow>
      checkAuthDetails this fs (Value Undefined) details cb =
        call_fn fs (Function g) (AuthArgs (user details) (pass details)) cb) \<and>
   (\<not> truthy_fv (checkAuth this) \<longrightarrow>
      checkAuthDetails this fs (Value Undefined) details cb = cb [Bool True])"
proof -
  have "checkAuthDetails this fs (Function f) details cb = cb [v]"
    if b: "fn_body (fs f) (AuthArgs (user details) (pass details)) = Callback [v] (Return r)"
      and n: "snd (cb [v]) = None"
  proof -
    obtain evs where c: "cb [v] = (evs, None)"
      using n by (cases "cb [v]") auto
    show ?thesis
      by (simp add: checkAuthDetails_def call_fn_def b c)
  qed
  then show ?thesis
    by (simp add: checkAuthDetails_def)
qed

theorem auth_precedence_witness:
  "checkAuthDetails
     \<lparr>routes = [], checkAuth = Function 1, maxDepth = 1,
      debug = False, prettyJson = False, fullRequest = False\<rparr>
     (no_funs(1 := \<lparr>fn_length = 3, fn_auth = Value Undefined,
                   fn_body = always (Callback [Bool False] (Return Undefined))\<rparr>,
              2 := \<lparr>fn_length = 3, fn_auth = Value Undefined,
                   fn_body = always (Callback [Bool True] (Return Undefined))\<rparr>))
     (Function 2) \<lparr>user = Undefined, pass = Undefined\<rparr>
     (auth_callback
        \<lparr>routes = [], checkAuth = Function 1, maxDepth = 1,
         debug = False, prettyJson = False, fullRequest = False\<rparr> decimal
        (no_funs 0) \<lparr>req_method = ''GET'', req_pathname = ''/users/get'', req_args = [],
                     req_body = Obj [], req_remoteAddress = ''127.0.0.1'', req_ip = None\<rparr> Res) =
   auth_callback
        \<lparr>routes = [], checkAuth = Function 1, maxDepth = 1,
         debug = False, prettyJson = False, fullRequest = False\<rparr> decimal
        (no_funs 0) \<lparr>req_method = ''GET'', req_pathname = ''/users/get'', req_args = [],
                     req_body = Obj [], req_remoteAddress = ''127.0.0.1'', req_ip = None\<rparr> Res
        [Bool True] \<and>
   checkAuthDetails
     \<lparr>routes = [], checkAuth = Function 1, maxDepth = 1,
      debug = False, prettyJson = False, fullRequest = False\<rparr>
     (no_funs(1 := \<lparr>fn_length = 3, fn_auth = Value Undefined,
                   fn_body = always (Callback [Bool False] (Return Undefined))\<rparr>,
              2 := \<lparr>fn_length = 3, fn_auth = Value Undefined,
                   fn_body = always (Callback [Bool True] (Return Undefined))\<rparr>))
     (Value Undefined) \<lparr>user = Undefined, pass = Undefined\<rparr>
     (auth_callback
        \<lparr>routes = [], checkAuth = Function 1, maxDepth = 1,
         debug = False, prettyJson = False, fullRequest = False\<rparr> decimal
        (no_funs 0) \<lparr>req_method = ''GET'', req_pathname = ''/users/get'', req_args = [],
                     req_body = Obj [], req_remoteAddress = ''127.0.0.1'', req_ip = None\<rparr> Res) =
   auth_callback
        \<lparr>routes = [], checkAuth = Function 1, maxDepth = 1,
         debug = False, prettyJson = False, fullRequest = False\<rparr> decimal
        (no_funs 0) \<lparr>req_method = ''GET'', req_pathname = ''/users/get'', req_args = [],
                     req_body = Obj [], req_remoteAddress = ''127.0.0.1'', req_ip = None\<rparr> Res
        [Bool False] \<and>
   checkAuthDetails
     \<lparr>routes = [], checkAuth = Value (Bool False), maxDepth = 1,
      debug = False, prettyJson = False, fullRequest = False\<rparr>
     no_funs (Value Undefined) \<lparr>user = Undefined, pass = Undefined\<rparr>
     (auth_callback
        \<lparr>routes = [], checkAuth = Value (Bool False), maxDepth = 1,
         debug = False, prettyJson = False, fullRequest = False\<rparr> decimal
        (no_funs 0) \<lparr>req_method = ''GET'', req_pathname = ''/users/get'', req_args = [],
                     req_body = Obj [], req_remoteAddress = ''127.0.0.1'', req_ip = None\<rparr> Res) =
   auth_callback
        \<lparr>routes = [], checkAuth = Value (Bool False), maxDepth = 1,
         debug = False, prettyJson = False, fullRequest = False\<rparr> decimal
        (no_funs 0) \<lparr>req_method = ''GET'', req_pathname = ''/users/get'', req_args = [],
                     req_body = Obj [], req_remoteAddress = ''127.0.0.1'', req_ip = None\<rparr> Res
        [Bool True]"
proof -
  let ?srv = "\<lparr>routes = [], checkAuth = Function 1, maxDepth = 1,
      debug = False, prettyJson = False, fullRequest = False\<rparr>"
  let ?open = "\<lparr>routes = [], checkAuth = Value (Bool False), maxDepth = 1,
      debug = False, prettyJson = False, fullRequest = False\<rparr>"
  let ?fs = "no_funs(1 := \<lparr>fn_length = 3, fn_auth = Value Undefined,
                   fn_body = always (Callback [Bool False] (Return Undefined))\<rparr>,
              2 := \<lparr>fn_length = 3, fn_auth = Value Undefined,
                   fn_body = always (Callback [Bool True] (Return Undefined))\<rparr>)"
  let ?d = "\<lparr>user = Undefined, pass = Undefined\<rparr>"
  let ?rq = "\<lparr>req_method = ''GET'', req_pathname = ''/users/get'', req_args = [],
                     req_body = Obj [], req_remoteAddress = ''127.0.0.1'', req_ip = None\<rparr>"
  let ?cb = "auth_callback ?srv decimal (no_funs 0) ?rq Res"
  let ?cb' = "auth_callback ?open decimal (no_funs 0) ?rq Res"
  have b2: "fn_body (?fs 2) (AuthArgs (user ?d) (pass ?d)) = Callback [Bool True] (Return Undefined)"
    by (simp add: always_def)
  have b1: "fn_body (?fs 1) (AuthArgs (user ?d) (pass ?d)) = Callback [Bool False] (Return Undefined)"
    by (simp add: always_def)
  have g: "checkAuth ?srv = Function 1" by simp
  have n: "\<not> truthy_fv (checkAuth ?open)" by simp
  have r: "snd (?cb argv) = None" for argv by (rule auth_callback_returns)
  note own = auth_precedence [of ?srv ?fs 2 ?d ?cb "Bool True" Undefined 1]
  note glob = auth_precedence [of ?srv ?fs 1 ?d ?cb "Bool False" Undefined 1]
  note none = auth_precedence [of ?open no_funs 0 ?d ?cb' Undefined Undefined 0]
  have c1: "checkAuthDetails ?srv ?fs (Function 2) ?d ?cb = ?cb [Bool True]"
    using own [THEN conjunct2, THEN conjunct1] b2 r by blast
  have "checkAuthDetails ?srv ?fs (Value Undefined) ?d ?cb =
        call_fn ?fs (Function 1) (AuthArgs (user ?d) (pass ?d)) ?cb"
    using glob [THEN conjunct2, THEN conjunct2, THEN conjunct2, THEN conjunct1] g by blast
  also have "\<dots> = checkAuthDetails ?srv ?fs (Function 1) ?d ?cb"
    using glob [THEN conjunct1] by simp
  also have "\<dots> = ?cb [Bool False]"
    using glob [THEN conjunct2, THEN conjunct1] b1 r by blast
  finally have c2: "checkAuthDetails ?srv ?fs (Value Undefined) ?d ?cb = ?cb [Bool False]" .
  have c3: "checkAuthDetails ?open no_funs (Value Undefined) ?d ?cb' = ?cb' [Bool True]"
    using none [THEN conjunct2, THEN conjunct2, THEN conjunct2, THEN conjunct2] n by blast
  show ?thesis using c1 c2 c3 by (intro conjI)
qed

section \<open>Properties of registration\<close>

lemma register_auth:
  "truthy_fv a \<Longrightarrow>
   fn_auth (funs (register (Some \<lparr>auth = a\<rparr>) stack g s) f) =
     (if f = g then a else fn_auth (funs s f))"
  by (simp add: register_def Let_def)

lemma walk_auth:
  "truthy_fv (auth x) \<Longrightarrow> extra = Some x \<Longrightarrow>
   fn_auth (funs (r_dict extra stack d s) f) =
     (if f \<in> funcs_dict d then auth x else fn_auth (funs s f))"
  "truthy_fv (auth x) \<Longrightarrow> extra = Some x \<Longrightarrow>
   fn_auth (funs (r_value extra stack v s) f) =
     (if f \<in> funcs_value v then auth x else fn_auth (funs s f))"
proof (induction extra stack d s and extra stack v s rule: r_dict_r_value.induct)
  case (1 extra stack s)
  then show ?case by simp
next
  case (2 extra stack k v d s)
  then show ?case by simp
next
  case (3 extra stack g s)
  then show ?case by (simp add: register_def Let_def)
next
  case (4 extra stack d s)
  then show ?case by simp
next
  case (5 extra stack s)
  then show ?case by simp
qed

text \<open>
  The \<^verbatim>\<open>auth\<close> property lives on the function object, so the routes bound to one
  function share it. After a registration with a truthy \<^verbatim>\<open>extra.auth\<close>, every route
  bound to a function of that registration, by this call or by an earlier one, is
  checked against that value.
\<close>

lemma shared_auth_after_registration:
  assumes "truthy_fv a"
      and "f \<in> funcs_dict route"
      and "map_of (routes (server (addEndpoints route (Some \<lparr>auth = a\<rparr>) s))) p = Some f"
  shows "route_auth (addEndpoints route (Some \<lparr>auth = a\<rparr>) s) p = Some a"
  using assms walk_auth(1)[of "\<lparr>auth = a\<rparr>" "Some \<lparr>auth = a\<rparr>" "[]" route s f]
  by (simp add: route_auth_def addEndpoints_def)

lemma later_truthy_auth_shared:
  assumes "truthy_fv a2"
  shows "route_auth
     (addEndpoints [(''b'', Func f)] (Some \<lparr>auth = a2\<rparr>)
        (addEndpoints [(''a'', Func f)] (Some \<lparr>auth = a1\<rparr>) s))
     ''/a'' = Some a2 \<and>
   route_auth
     (addEndpoints [(''b'', Func f)] (Some \<lparr>auth = a2\<rparr>)
        (addEndpoints [(''a'', Func f)] (Some \<lparr>auth = a1\<rparr>) s))
     ''/b'' = Some a2"
  using assms
  by (simp add: addEndpoints_def register_def route_auth_def Let_def slash_def
      AList.update_conv')

text \<open>
  Claim C10. A function registered under two routes with different \<^verbatim>\<open>extra.auth\<close>
  should, on both routes, carry the override of the later registration. The assignment
  is guarded by \<^verbatim>\<open>extra && extra.auth\<close>: when the later registration disables
  authentication with \<^verbatim>\<open>auth: false\<close>, nothing is stored and both routes keep the auth
  function of the earlier registration.
\<close>

theorem auth_false_not_attached:
  "route_auth
     (addEndpoints [(''b'', Func f)] (Some \<lparr>auth = Value (Bool False)\<rparr>)
        (addEndpoints [(''a'', Func f)] (Some \<lparr>auth = Function g\<rparr>) s))
     ''/a'' = Some (Function g) \<and>
   route_auth
     (addEndpoints [(''b'', Func f)] (Some \<lparr>auth = Value (Bool False)\<rparr>)
        (addEndpoints [(''a'', Func f)] (Some \<lparr>auth = Function g\<rparr>) s))
     ''/b'' = Some (Function g)"
  by (simp add: addEndpoints_def register_def route_auth_def Let_def slash_def
      AList.update_conv')

section \<open>Two requests through the dispatcher\<close>

text \<open>
  A request for a path that is not registered is answered with 404 and the envelope of
  \<^verbatim>\<open>_checkParamsSupplied\<close>.
\<close>

lemma unknown_path_scenario:
  "responses (fst (after_middleware
     \<lparr>routes = [(''/users/get'', 0)], checkAuth = Value (Bool False), maxDepth = 1,
      debug = False, prettyJson = False, fullRequest = False\<rparr> decimal no_funs
     \<lparr>user = Undefined, pass = Undefined\<rparr>
     \<lparr>req_method = ''GET'', req_pathname = ''/unknown/path'', req_args = [],
      req_body = Obj [], req_remoteAddress = ''127.0.0.1'', req_ip = None\<rparr> Res)) =
   [\<lparr>sent_code = Num 404, sent_status = Str ''No endpoint /unknown/path'',
     sent_header = [(''content-type'', ''application/json''),
                    (''X-Content-Type-Options'', ''nosniff''),
                    (''X-Frame-Options'', ''DENY'')],
     sent_pretty = False,
     sent_data = Obj [(''ok'', Bool False), (''code'', Num 404),
                      (''error'', Str ''No endpoint /unknown/path'')]\<rparr>]"
proof -
  have r: "checkParamsSupplied
     \<lparr>routes = [(''/users/get'', 0)], checkAuth = Value (Bool False), maxDepth = 1,
      debug = False, prettyJson = False, fullRequest = False\<rparr> ''/unknown/path'' =
     \<lparr>rd_ok = False, rd_code = 404, rd_error = Some ''No endpoint /unknown/path'',
      rd_handler = None, rd_args = None\<rparr>"
    by (simp add: checkParamsSupplied_def strip_slash_def char_at_def slash_def substring_def
        lastIndexOf_def Let_def)
  show ?thesis
    by (simp add: after_middleware_def r returnDict_value_def writeResponse_def Let_def
        js_or_def getHeaders_def)
qed

text \<open>
  A request for a registered handler, with a global auth function that rejects every
  request, is answered with 401 and the header \<^verbatim>\<open>WWW-Authenticate\<close>.
\<close>

lemma rejected_request_scenario:
  "responses (fst (after_middleware
     \<lparr>routes = [(''/users/get'', 0)], checkAuth = Function 1, maxDepth = 1,
      debug = False, prettyJson = False, fullRequest = False\<rparr> decimal
     (no_funs(1 := \<lparr>fn_length = 3, fn_auth = Value Undefined,
                   fn_body = always (Callback [Bool False] (Return Undefined))\<rparr>))
     \<lparr>user = Undefined, pass = Undefined\<rparr>
     \<lparr>req_method = ''GET'', req_pathname = ''/users/get'', req_args = [],
      req_body = Obj [], req_remoteAddress = ''127.0.0.1'', req_ip = None\<rparr> Res)) =
   [\<lparr>sent_code = Num 401, sent_status = Str ''Auth failed'',
     sent_header = [(''content-type'', ''application/json''),
                    (''X-Content-Type-Options'', ''nosniff''),
                    (''X-Frame-Options'', ''DENY''),
                    (''WWW-Authenticate'', ''Basic user:pass'')],
     sent_pretty = False,
     sent_data = Obj [(''code'', Num 401), (''ok'', Bool False),
                      (''error'', Str ''Auth failed'')]\<rparr>]"
proof -
  have r: "checkParamsSupplied this ''/users/get'' =
     \<lparr>rd_ok = True, rd_code = 404, rd_error = None,
      rd_handler = Some 0, rd_args = Some []\<rparr>"
    if "routes this = [(''/users/get'', 0)]" and "maxDepth this = 1" for this
    using that
    by (simp add: checkParamsSupplied_def strip_slash_def char_at_def slash_def substring_def
        lastIndexOf_def Let_def)
  show ?thesis
    by (simp add: after_middleware_def r checkAuthDetails_def call_fn_def always_def
        no_funs_def auth_callback_def arg_def auth_failed_envelope_def writeResponse_def
        Let_def js_or_def getHeaders_def)
qed

end
